theory Spec2Isabelle
  imports Main "HOL-Library.AList" "HOL-Library.Sublist"
begin

section \<open>The client side: querying assertions (client/asserts.go)\<close>

subsection \<open>Library functions the client calls\<close>

text \<open>
  Go's \<open>strconv.Atoi\<close>: an optional sign, then one or more decimal digits, and the
  value has to fit the platform's \<open>int\<close> (64 bits here). Every other string, the empty
  one included, is an error (\<open>None\<close>).
\<close>

definition isDigit :: "char \<Rightarrow> bool" where
  "isDigit c = (48 \<le> (of_char c :: nat) \<and> (of_char c :: nat) \<le> 57)"

fun digitsValue :: "nat \<Rightarrow> string \<Rightarrow> nat" where
  "digitsValue n [] = n"
| "digitsValue n (c # cs) = digitsValue (n * 10 + ((of_char c :: nat) - 48)) cs"

definition Atoi :: "string \<Rightarrow> int option" where
  "Atoi s =
     (case s of
        [] \<Rightarrow> None
      | c # cs \<Rightarrow>
          (let ds = (if c = CHR ''-'' \<or> c = CHR ''+'' then cs else s) in
           if ds = [] \<or> \<not> list_all isDigit ds then None
           else
             (let n = int (digitsValue 0 ds);
                  v = (if c = CHR ''-'' then - n else n)
              in if - (2 ^ 63) \<le> v \<and> v < 2 ^ 63 then Some v else None)))"

text \<open>
  \<open>http.Header\<close> is a map from a header name to the list of its values;
  \<open>Header.Get\<close> returns the first value, and the empty string when there is none.
\<close>

type_synonym Header = "string \<rightharpoonup> string list"

definition Header_Get :: "Header \<Rightarrow> string \<Rightarrow> string" where
  "Header_Get h key =
     (case h key of
        None \<Rightarrow> []
      | Some vs \<Rightarrow> (case vs of [] \<Rightarrow> [] | v # _ \<Rightarrow> v))"

subsection \<open>Responses, the transport and the decoder\<close>

text \<open>
  An HTTP response as \<open>Asserts\<close> reads it: the status code, the headers and the body,
  a stream in some state \<open>'s\<close> that the assertion decoder consumes.
\<close>

record 's response =
  StatusCode :: int
  Header :: Header
  Body :: 's

text \<open>
  \<open>client.raw\<close> and \<open>parseError\<close> are methods of the client that \<open>Asserts\<close> calls;
  the model takes them as the two fields of the client. Errors are their messages.
\<close>

record 's Client =
  raw :: "string \<Rightarrow> string \<Rightarrow> (string \<rightharpoonup> string list) \<Rightarrow> string + 's response"
  parseError :: "'s response \<Rightarrow> string"

text \<open>
  One call of \<open>dec.Decode()\<close> yields an assertion, \<open>io.EOF\<close> or another error, and
  leaves the stream in a new state.
\<close>

datatype 'a decode_result = Decoded 'a | EOF | DecodeFailed string

text \<open>
  The \<open>for\<close> loop of \<open>Asserts\<close>. It runs until the decoder reports \<open>io.EOF\<close> or an
  error; on a stream that never does, it does not return (\<open>None\<close>).
\<close>

partial_function (option) decode_loop ::
  "('s \<Rightarrow> 'a decode_result \<times> 's) \<Rightarrow> 's \<Rightarrow> 'a list \<Rightarrow> (string + 'a list) option" where
  "decode_loop Decode s asserts =
     (case Decode s of
        (EOF, _) \<Rightarrow> Some (Inr asserts)
      | (DecodeFailed err, _) \<Rightarrow> Some (Inl (''failed to decode assertions: '' @ err))
      | (Decoded a, s') \<Rightarrow> decode_loop Decode s' (asserts @ [a]))"

text \<open>The query built from the headers: \<open>q.Set(k, v)\<close> for every pair.\<close>

definition query_of :: "(string \<rightharpoonup> string) \<Rightarrow> (string \<rightharpoonup> string list)" where
  "query_of headers = (\<lambda>k. case headers k of None \<Rightarrow> None | Some v \<Rightarrow> Some [v])"

definition Asserts ::
  "'s Client \<Rightarrow> ('s \<Rightarrow> 'a decode_result \<times> 's) \<Rightarrow> string \<Rightarrow> (string \<rightharpoonup> string)
     \<Rightarrow> (string + 'a list) option" where
  "Asserts client Decode assertTypeName headers =
     (case raw client ''GET'' (''/2.0/assertions/'' @ assertTypeName) (query_of headers) of
        Inl err \<Rightarrow> Some (Inl (''failed to query assertions: '' @ err))
      | Inr response \<Rightarrow>
          if StatusCode response \<noteq> 200 then Some (Inl (parseError client response))
          else
            (case Atoi (Header_Get (Header response) ''X-Ubuntu-Assertions-Count'') of
               None \<Rightarrow> Some (Inl ''invalid assertions count'')
             | Some sanityCount \<Rightarrow>
                 (case decode_loop Decode (Body response) [] of
                    None \<Rightarrow> None
                  | Some (Inl err) \<Rightarrow> Some (Inl err)
                  | Some (Inr asserts) \<Rightarrow>
                      if int (length asserts) \<noteq> sanityCount
                      then Some (Inl ''response did not have the expected number of assertions'')
                      else Some (Inr asserts))))"

text \<open>
  A body decodes into the assertions \<open>as\<close> up to end-of-stream: successive calls of the
  decoder yield the elements of \<open>as\<close> in order and then \<open>io.EOF\<close>.
\<close>

fun decodes_to :: "('s \<Rightarrow> 'a decode_result \<times> 's) \<Rightarrow> 's \<Rightarrow> 'a list \<Rightarrow> bool" where
  "decodes_to Decode s [] = (fst (Decode s) = EOF)"
| "decodes_to Decode s (a # as) =
     (case Decode s of
        (Decoded b, s') \<Rightarrow> b = a \<and> decodes_to Decode s' as
      | _ \<Rightarrow> False)"

text \<open>
  The test suite's fake server answers with a fixed body; here a body is the list of
  what the decoder will yield, one element per call.
\<close>

definition scripted_Decode :: "'a decode_result list \<Rightarrow> 'a decode_result \<times> 'a decode_result list" where
  "scripted_Decode s = (case s of [] \<Rightarrow> (EOF, []) | r # rs \<Rightarrow> (r, rs))"

definition fake_client :: "int \<Rightarrow> Header \<Rightarrow> 's \<Rightarrow> 's Client" where
  "fake_client status header rsp =
     \<lparr> raw = (\<lambda>method path q. Inr \<lparr> StatusCode = status, Header = header, Body = rsp \<rparr>),
       parseError = (\<lambda>response. ''server error'') \<rparr>"

definition count_header :: "string \<Rightarrow> Header" where
  "count_header v = [''X-Ubuntu-Assertions-Count'' \<mapsto> [v]]"

text \<open>A decoder that yields one more assertion at every call and never ends.\<close>

definition endless_Decode :: "nat \<Rightarrow> nat decode_result \<times> nat" where
  "endless_Decode n = (Decoded n, Suc n)"

section \<open>The filesystem keypair manager (asserts/fskeypairmgr.go)\<close>

subsection \<open>Library functions the manager calls\<close>

text \<open>
  Go's \<open>url.QueryEscape\<close>, byte by byte: letters, digits and the marks \<open>- _ . ~\<close>
  stay, a space becomes \<open>+\<close>, and every other byte becomes \<open>%\<close> and its two upper-case
  hexadecimal digits.
\<close>

definition shouldEscape :: "char \<Rightarrow> bool" where
  "shouldEscape c =
     (let n = (of_char c :: nat) in
      if (97 \<le> n \<and> n \<le> 122) \<or> (65 \<le> n \<and> n \<le> 90) \<or> (48 \<le> n \<and> n \<le> 57) then False
      else if List.member ''-_.~'' c then False
      else True)"

definition upperhex :: string where
  "upperhex = ''0123456789ABCDEF''"

definition escape_byte :: "char \<Rightarrow> string" where
  "escape_byte c =
     (if c = CHR '' '' then ''+''
      else if shouldEscape c
        then [CHR ''%'', upperhex ! ((of_char c :: nat) div 16), upperhex ! ((of_char c :: nat) mod 16)]
      else [c])"

definition QueryEscape :: "string \<Rightarrow> string" where
  "QueryEscape s = concat (map escape_byte s)"

subsection \<open>The store under the manager\<close>

text \<open>
  A path is the list of its components, and \<open>filepath.Join\<close> appends components.
  The store maps a path to what is there: a file with its bytes, or an entry that exists
  and cannot be read. \<open>write_fault\<close> is the error the store answers a write with, if any.
\<close>

type_synonym path = "string list"

datatype node = File string | Unreadable string

record filesystem =
  files :: "path \<rightharpoonup> node"
  write_fault :: "string option"

definition Join :: "path \<Rightarrow> string list \<Rightarrow> path" where
  "Join dir subpath = dir @ subpath"


text \<open>
  The helpers \<open>ensureTop\<close>, \<open>entryExists\<close>, \<open>readEntry\<close> and \<open>atomicWriteEntry\<close>
  of the package are called by the source file and defined elsewhere. Directories are
  implicit in the store.
\<close>


text \<open>
  Modelled from the spec: \<open>entryExists\<close>, missing from the sources. There is one entry
  per escaped authority-id and key-id under the versioned directory.
\<close>

definition entryExists :: "filesystem \<Rightarrow> path \<Rightarrow> string list \<Rightarrow> bool" where
  "entryExists fs top_dir subpath = (files fs (Join top_dir subpath) \<noteq> None)"


text \<open>
  Modelled from the spec: \<open>atomicWriteEntry\<close>, missing from the sources. Writes are
  atomic (temporary file and rename), so a failed write publishes nothing.
\<close>

definition atomicWriteEntry ::
  "string \<Rightarrow> bool \<Rightarrow> filesystem \<Rightarrow> path \<Rightarrow> string list \<Rightarrow> string option \<times> filesystem" where
  "atomicWriteEntry data secret fs top_dir subpath =
     (case write_fault fs of
        Some err \<Rightarrow> (Some err, fs)
      | None \<Rightarrow> (None, fs\<lparr>files := (files fs)(Join top_dir subpath \<mapsto> File data)\<rparr>))"

subsection \<open>Keys and errors\<close>

text \<open>
  What the manager needs of a private key of type \<open>'k\<close>: the id of its public key
  (\<open>privKey.PublicKey().ID()\<close>) and the two directions of its encoding, each of which
  can fail with a message.
\<close>

record 'k keyops =
  PublicKeyID :: "'k \<Rightarrow> string"
  encodePrivateKey :: "'k \<Rightarrow> string + string"
  decodePrivateKey :: "string \<Rightarrow> string + 'k"

text \<open>
  The two sentinel errors of the file and the errors made by \<open>fmt.Errorf\<close>, with the
  message each one prints.
\<close>

datatype error = errKeypairAlreadyExists | errKeypairNotFound | Errorf string


subsection \<open>The manager\<close>



text \<open>The field \<open>top\<close> of the source is \<open>top_dir\<close> here.\<close>

record filesystemKeypairManager =
  top_dir :: path


definition Put ::
  "'k keyops \<Rightarrow> filesystemKeypairManager \<Rightarrow> filesystem \<Rightarrow> string \<Rightarrow> 'k
     \<Rightarrow> error option \<times> filesystem" where
  "Put ops fskm fs authorityID privKey =
     (let keyID = PublicKeyID ops privKey;
          escapedAuthorityID = QueryEscape authorityID
      in if entryExists fs (top_dir fskm) [escapedAuthorityID, keyID]
         then (Some errKeypairAlreadyExists, fs)
         else
           (case encodePrivateKey ops privKey of
              Inl err \<Rightarrow> (Some (Errorf (''failed to store private key: '' @ err)), fs)
            | Inr encoded \<Rightarrow>
                (case atomicWriteEntry encoded True fs (top_dir fskm) [escapedAuthorityID, keyID] of
                   (Some err, fs') \<Rightarrow> (Some (Errorf (''failed to store private key: '' @ err)), fs')
                 | (None, fs') \<Rightarrow> (None, fs'))))"


text \<open>
  Keys for the examples: a private key is a string, the id of its public key is its first
  eight bytes, it is stored as it is, and stored bytes are a key when there are at least
  eight of them.
\<close>

definition example_keyops :: "string keyops" where
  "example_keyops =
     \<lparr> PublicKeyID = take 8,
       encodePrivateKey = Inr,
       decodePrivateKey = (\<lambda>encoded. if length encoded < 8 then Inl ''short read'' else Inr encoded) \<rparr>"

definition empty_store :: filesystem where
  "empty_store = \<lparr> files = Map.empty, write_fault = None \<rparr>"

definition example_manager :: filesystemKeypairManager where
  "example_manager = \<lparr> top_dir = [''var'', ''lib'', ''snappy'', ''private-keys-v0''] \<rparr>"

text \<open>
  Stores for the examples: one that holds the key of \<open>dev1\<close>, one whose entry for
  \<open>dev1\<close> is cut short, and one that holds a key of an authority whose id needs
  escaping.
\<close>

definition dev1_store :: filesystem where
  "dev1_store = \<lparr> files = [[''var'', ''lib'', ''snappy'', ''private-keys-v0'', ''dev1'', ''01234567'']
                            \<mapsto> File ''0123456789abcdef''],
                  write_fault = None \<rparr>"



section \<open>The assertion database and the daemon's assertion endpoints\<close>

text \<open>
  The database of the asserts package (\<open>Add\<close>, \<open>Find\<close>, \<open>FindMany\<close> and the
  signature check behind them) and the daemon's handlers for \<open>/2.0/assertions\<close> are
  not among the sources; the daemon's tests of them are. Each definition below that
  stands for missing code says so, and follows the spec's description of it. The texts
  and header names that the tests fix (the messages of the 400 responses, the
  Content-Type and X-Ubuntu-Assertions-Count headers, the headers of an account-key)
  are taken from the tests.
\<close>

subsection \<open>Assertions\<close>

text \<open>
  Modelled from the spec: the assertion type of the asserts package, missing from the
  sources. An assertion has a type, an ordered mapping of header names to values, a body
  and a signature.
\<close>

record assertion =
  assert_type :: string
  assert_headers :: "(string \<times> string) list"
  assert_body :: string
  assert_signature :: string

definition header :: "assertion \<Rightarrow> string \<Rightarrow> string option" where
  "header a name = map_of (assert_headers a) name"

definition AuthorityID :: "assertion \<Rightarrow> string" where
  "AuthorityID a = (case header a ''authority-id'' of None \<Rightarrow> [] | Some v \<Rightarrow> v)"

text \<open>
  Modelled from the spec: the revision of an assertion, missing from the sources. It is
  a non-negative integer header with default 0.
  (A decoded assertion carries a well-formed one; any other value reads as 0 here.)
\<close>

definition revision :: "assertion \<Rightarrow> nat" where
  "revision a =
     (case header a ''revision'' of
        None \<Rightarrow> 0
      | Some r \<Rightarrow> (case Atoi r of None \<Rightarrow> 0 | Some n \<Rightarrow> if 0 \<le> n then nat n else 0))"

text \<open>
  What the database takes from outside: how a signature names its key and whether it
  verifies under a public key, how a timestamp is read, the registry of assertion types
  with the primary-key headers of each, and the type-specific consistency check, which
  sees the stored assertions and answers with the rule that is violated, if any.
\<close>

record engine =
  signatureKeyID :: "string \<Rightarrow> string"
  signatureValid :: "string \<Rightarrow> assertion \<Rightarrow> bool"
  timestamp :: "string \<Rightarrow> nat option"
  registry :: "(string \<times> string list) list"
  consistencyCheck :: "assertion list \<Rightarrow> assertion \<Rightarrow> string option"

subsection \<open>The database\<close>

text \<open>
  Modelled from the spec: the database of the asserts package, missing from the sources.
  The Backstore index maps a type and the values of the type's primary-key headers to the
  current assertion; the database joins it with the trusted-root set, the account-key
  assertions it is configured with.
\<close>

type_synonym primary_key = "string \<times> string option list"

record database =
  trusted :: "assertion list"
  backstore :: "(primary_key \<times> assertion) list"

definition stored :: "database \<Rightarrow> assertion list" where
  "stored db = map snd (backstore db)"

definition primaryKey :: "engine \<Rightarrow> assertion \<Rightarrow> primary_key option" where
  "primaryKey eng a =
     (case map_of (registry eng) (assert_type a) of
        None \<Rightarrow> None
      | Some names \<Rightarrow> Some (assert_type a, map (header a) names))"

datatype db_error =
  UnknownKey | InvalidSignature | KeyNotValid | Inconsistent string | Superseded | NotFound

fun errorText :: "db_error \<Rightarrow> string" where
  "errorText UnknownKey = ''unknown key''"
| "errorText InvalidSignature = ''invalid signature''"
| "errorText KeyNotValid = ''key not valid''"
| "errorText (Inconsistent rule) = ''inconsistent: '' @ rule"
| "errorText Superseded = ''superseded''"
| "errorText NotFound = ''not found''"

text \<open>
  Modelled from the spec: the key lookup of the database, missing from the sources
  (section 4.4, step 1). The signing key is looked up by authority-id and key-id, first
  in the trusted-root set, then among the stored account-key assertions.
\<close>

definition isAccountKeyFor :: "string \<Rightarrow> string \<Rightarrow> assertion \<Rightarrow> bool" where
  "isAccountKeyFor authority keyID k =
     (assert_type k = ''account-key''
      \<and> header k ''account-id'' = Some authority
      \<and> header k ''public-key-id'' = Some keyID)"

definition findPublicKey :: "database \<Rightarrow> string \<Rightarrow> string \<Rightarrow> assertion option" where
  "findPublicKey db authority keyID =
     (case find (isAccountKeyFor authority keyID) (trusted db) of
        Some k \<Rightarrow> Some k
      | None \<Rightarrow> find (isAccountKeyFor authority keyID) (stored db))"

text \<open>
  Modelled from the spec: the verifier, missing from the sources (section 4.3). It
  resolves the key (\<open>UnknownKey\<close> if there is none), checks the signature
  (\<open>InvalidSignature\<close>), and checks the time against the validity window of the
  account-key (\<open>KeyNotValid\<close>).
\<close>

definition isValidAt :: "engine \<Rightarrow> assertion \<Rightarrow> nat \<Rightarrow> bool" where
  "isValidAt eng k now =
     (case (Option.bind (header k ''since'') (timestamp eng),
            Option.bind (header k ''until'') (timestamp eng)) of
        (Some since, Some until) \<Rightarrow> since \<le> now \<and> now < until
      | _ \<Rightarrow> False)"

definition Verify ::
  "engine \<Rightarrow> (string \<Rightarrow> string \<Rightarrow> assertion option) \<Rightarrow> nat \<Rightarrow> assertion \<Rightarrow> db_error option" where
  "Verify eng resolver now a =
     (case resolver (AuthorityID a) (signatureKeyID eng (assert_signature a)) of
        None \<Rightarrow> Some UnknownKey
      | Some k \<Rightarrow>
          if \<not> signatureValid eng (assert_body k) a then Some InvalidSignature
          else if \<not> isValidAt eng k now then Some KeyNotValid
          else None)"

text \<open>
  Modelled from the spec: \<open>Add\<close> of the database, missing from the sources (section
  4.4, steps 1 to 5). Verify, run the consistency checks of the type (an unregistered
  type has none to pass), compare revisions with the stored assertion of the same type
  and primary key, persist. A failed \<open>Add\<close> leaves the database as it was.
\<close>

definition Add :: "engine \<Rightarrow> database \<Rightarrow> nat \<Rightarrow> assertion \<Rightarrow> db_error option \<times> database" where
  "Add eng db now a =
     (case Verify eng (findPublicKey db) now a of
        Some err \<Rightarrow> (Some err, db)
      | None \<Rightarrow>
          (case primaryKey eng a of
             None \<Rightarrow> (Some (Inconsistent ''unknown assertion type''), db)
           | Some key \<Rightarrow>
               (case consistencyCheck eng (stored db) a of
                  Some rule \<Rightarrow> (Some (Inconsistent rule), db)
                | None \<Rightarrow>
                    (case map_of (backstore db) key of
                       None \<Rightarrow> (None, db\<lparr>backstore := AList.update key a (backstore db)\<rparr>)
                     | Some current \<Rightarrow>
                         if revision a \<le> revision current then (Some Superseded, db)
                         else (None, db\<lparr>backstore := AList.update key a (backstore db)\<rparr>)))))"

text \<open>
  Modelled from the spec: \<open>FindMany\<close> and \<open>Find\<close> of the database, missing from the
  sources (section 4.4). \<open>FindMany\<close> returns every current assertion of the type
  whose headers equal all the filter's values, and no match is the empty sequence;
  \<open>Find\<close> fails with \<open>NotFound\<close> unless exactly one matches. The spec also names a
  \<open>BadQuery\<close> reject for malformed filter values and does not say which values those
  are; no filter is rejected here. The repository's test TestAssertsFindManyAll finds
  the trusted account-key of can0nical before the stored one of developer1, so a query
  sees the trusted-root set first and the index after it.
\<close>

definition current :: "database \<Rightarrow> assertion list" where
  "current db = trusted db @ stored db"

definition matchesFilter :: "(string \<times> string) list \<Rightarrow> assertion \<Rightarrow> bool" where
  "matchesFilter headerFilter a = list_all (\<lambda>(name, v). header a name = Some v) headerFilter"

definition FindMany ::
  "database \<Rightarrow> string \<Rightarrow> (string \<times> string) list \<Rightarrow> db_error + assertion list" where
  "FindMany db t headerFilter =
     Inr (filter (\<lambda>a. assert_type a = t \<and> matchesFilter headerFilter a) (current db))"


subsection \<open>The wire format of a bundle\<close>

text \<open>
  Modelled from the spec: the encoder and the stream decoder of the asserts package,
  missing from the sources (section 4.2). A bundle is the encodings of its assertions
  with a blank line between one and the next, and decoding a stream with nothing left
  yields the end-of-stream sentinel. How one assertion is written and read is a
  parameter.
\<close>

definition blankLine :: string where
  "blankLine = [CHR 0x0A, CHR 0x0A]"

fun encodeBundle :: "(assertion \<Rightarrow> string) \<Rightarrow> assertion list \<Rightarrow> string" where
  "encodeBundle Encode [] = []"
| "encodeBundle Encode [a] = Encode a"
| "encodeBundle Encode (a # b # rest) = Encode a @ blankLine @ encodeBundle Encode (b # rest)"


subsection \<open>The daemon's handlers\<close>

datatype response_type = ResponseTypeSync | ResponseTypeError | ResponseTypeAssertions

text \<open>
  A response of the daemon: the status, the kind, the message of an error response, and
  the headers and the body of a bundle response. (The JSON envelope that carries the
  message in the body of an error response is outside the model.)
\<close>

record daemon_response =
  Status :: nat
  Type :: response_type
  Message :: string
  RspHeader :: Header
  RspBody :: string

definition SyncResponse :: daemon_response where
  "SyncResponse =
     \<lparr> Status = 200, Type = ResponseTypeSync, Message = [], RspHeader = Map.empty, RspBody = [] \<rparr>"

definition BadRequest :: "string \<Rightarrow> daemon_response" where
  "BadRequest msg =
     \<lparr> Status = 400, Type = ResponseTypeError, Message = msg, RspHeader = Map.empty, RspBody = [] \<rparr>"

text \<open>Go's \<open>strconv.Itoa\<close> on a number that is not negative.\<close>

function Itoa :: "nat \<Rightarrow> string" where
  "Itoa n = (if n < 10 then [''0123456789'' ! n] else Itoa (n div 10) @ [''0123456789'' ! (n mod 10)])"
  by pat_completeness auto
termination
  by (relation "measure id") auto

definition AssertResponse :: "(assertion \<Rightarrow> string) \<Rightarrow> assertion list \<Rightarrow> daemon_response" where
  "AssertResponse Encode found =
     \<lparr> Status = 200, Type = ResponseTypeAssertions, Message = [],
       RspHeader = [''Content-Type'' \<mapsto> [''application/x.ubuntu.assertion; bundle=y''],
                    ''X-Ubuntu-Assertions-Count'' \<mapsto> [Itoa (length found)]],
       RspBody = encodeBundle Encode found \<rparr>"

text \<open>
  Modelled from the spec: \<open>doAssert\<close>, the handler of POST /2.0/assertions, missing
  from the sources (section 6). It decodes the body into one assertion and adds it; either
  failure is a 400 whose message starts with the context. The context of a decoding
  failure is the text that the repository's test TestAssertInvalid looks for,
  "can't decode request body into an assertion"; the one of a failed \<open>Add\<close> is
  "assert failed", as in TestAssertError.
\<close>

definition doAssert ::
  "engine \<Rightarrow> (string \<Rightarrow> string + assertion) \<Rightarrow> database \<Rightarrow> nat \<Rightarrow> string
     \<Rightarrow> daemon_response \<times> database" where
  "doAssert eng Decode db now b =
     (case Decode b of
        Inl err \<Rightarrow> (BadRequest (''can't decode request body into an assertion: '' @ err), db)
      | Inr a \<Rightarrow>
          (case Add eng db now a of
             (Some err, db') \<Rightarrow> (BadRequest (''assert failed: '' @ errorText err), db')
           | (None, db') \<Rightarrow> (SyncResponse, db')))"

text \<open>
  Modelled from the spec: \<open>assertsFindMany\<close>, the handler of
  GET /2.0/assertions/{type}, missing from the sources (section 6). A type that is not in the
  registry is a 400 with the message "invalid assert type"; otherwise the matching
  assertions are returned as a bundle with their number in X-Ubuntu-Assertions-Count.
\<close>

definition assertsFindMany ::
  "engine \<Rightarrow> (assertion \<Rightarrow> string) \<Rightarrow> database \<Rightarrow> string \<Rightarrow> (string \<times> string) list
     \<Rightarrow> daemon_response" where
  "assertsFindMany eng Encode db assertType query =
     (if map_of (registry eng) assertType = None then BadRequest ''invalid assert type''
      else
        (case FindMany db assertType query of
           Inl err \<Rightarrow> BadRequest (''searching assertions failed: '' @ errorText err)
         | Inr found \<Rightarrow> AssertResponse Encode found))"

subsection \<open>Fixtures\<close>

text \<open>
  The two account-keys of the daemon's tests, with short stand-ins for the key material.
  In the examples a signature is the id of the signing key followed by that key's public
  material, a timestamp is written in decimal digits, and the decoder of a request knows
  the one encoded assertion that the tests post.
\<close>

definition testTrustedKey :: assertion where
  "testTrustedKey =
     \<lparr> assert_type = ''account-key'',
       assert_headers =
         [(''type'', ''account-key''), (''authority-id'', ''can0nical''),
          (''account-id'', ''can0nical''), (''public-key-id'', ''844efa9730eec4be''),
          (''since'', ''20160114150000''), (''until'', ''20230114150000'')],
       assert_body = ''xsBNBFaXv40B'',
       assert_signature = ''844efa9730eec4bexsBNBFaXv40B'' \<rparr>"

definition testAccKey :: assertion where
  "testAccKey =
     \<lparr> assert_type = ''account-key'',
       assert_headers =
         [(''type'', ''account-key''), (''authority-id'', ''can0nical''),
          (''account-id'', ''developer1''), (''public-key-id'', ''adea89b00094c337''),
          (''since'', ''20160114150000''), (''until'', ''20230114150000'')],
       assert_body = ''xsBNBFaXv5MB'',
       assert_signature = ''844efa9730eec4bexsBNBFaXv40B'' \<rparr>"

definition example_engine :: engine where
  "example_engine =
     \<lparr> signatureKeyID = take 16,
       signatureValid = (\<lambda>publicKey a. drop 16 (assert_signature a) = publicKey),
       timestamp = (\<lambda>t. if t \<noteq> [] \<and> list_all isDigit t then Some (digitsValue 0 t) else None),
       registry = [(''account-key'', [''account-id'', ''public-key-id'']),
                   (''snap-revision'', [''snap-id'', ''snap-digest''])],
       consistencyCheck = (\<lambda>others a. None) \<rparr>"

definition fixture_Decode :: "string \<Rightarrow> string + assertion" where
  "fixture_Decode b = (if b = ''testAccKey'' then Inr testAccKey else Inl ''unexpected EOF'')"

definition fixture_Encode :: "assertion \<Rightarrow> string" where
  "fixture_Encode a = (if a = testAccKey then ''testAccKey'' else ''testTrustedKey'')"

definition untrusting_db :: database where
  "untrusting_db = \<lparr> trusted = [], backstore = [] \<rparr>"

definition trusting_db :: database where
  "trusting_db = \<lparr> trusted = [testTrustedKey], backstore = [] \<rparr>"

definition developer1_db :: database where
  "developer1_db =
     \<lparr> trusted = [testTrustedKey],
       backstore = [((''account-key'', [Some ''developer1'', Some ''adea89b00094c337'']), testAccKey)] \<rparr>"


section \<open>Properties of the client\<close>

lemma decode_loop_decodes_to:
  "decodes_to Decode s as \<Longrightarrow> decode_loop Decode s acc = Some (Inr (acc @ as))"
proof (induction as arbitrary: s acc)
  case Nil
  then show ?case
    by (subst decode_loop.simps) (auto split: prod.splits)
next
  case (Cons a as)
  from Cons.prems obtain s' where d: "Decode s = (Decoded a, s')" and rest: "decodes_to Decode s' as"
    by (auto split: prod.splits decode_result.splits)
  have "decode_loop Decode s acc = decode_loop Decode s' (acc @ [a])"
    by (subst decode_loop.simps) (simp add: d)
  also have "\<dots> = Some (Inr ((acc @ [a]) @ as))"
    using Cons.IH [OF rest] .
  finally show ?case by simp
qed

lemma Atoi_empty: "Atoi [] = None"
  by (simp add: Atoi_def)

text \<open>
  Claim C1. When the response has status 200, its X-Ubuntu-Assertions-Count header parses
  to N and its body decodes into the assertions \<open>as\<close> up to end-of-stream, \<open>Asserts\<close>
  returns \<open>as\<close> exactly when the number of them is N, and fails with
  "response did not have the expected number of assertions" otherwise.
\<close>

theorem Asserts_count_check:
  assumes "raw client ''GET'' (''/2.0/assertions/'' @ assertTypeName) (query_of headers) = Inr response"
    and "StatusCode response = 200"
    and "Atoi (Header_Get (Header response) ''X-Ubuntu-Assertions-Count'') = Some N"
    and "decodes_to Decode (Body response) as"
  shows "Asserts client Decode assertTypeName headers =
           Some (if int (length as) = N then Inr as
                 else Inl ''response did not have the expected number of assertions'')"
proof -
  have "decode_loop Decode (Body response) [] = Some (Inr as)"
    using decode_loop_decodes_to [OF assms(4), of "[]"] by simp
  then show ?thesis
    using assms(1-3) by (simp add: Asserts_def)
qed

theorem Asserts_count_check_witness:
  "raw (fake_client 200 (count_header ''2'') [Decoded ''snap-id-1'', Decoded ''snap-id-2''])
       ''GET'' (''/2.0/assertions/'' @ ''snap-revision'') (query_of Map.empty)
     = Inr \<lparr> StatusCode = 200, Header = count_header ''2'',
             Body = [Decoded ''snap-id-1'', Decoded ''snap-id-2''] \<rparr>
   \<and> Atoi (Header_Get (count_header ''2'') ''X-Ubuntu-Assertions-Count'') = Some 2
   \<and> decodes_to scripted_Decode [Decoded ''snap-id-1'', Decoded ''snap-id-2'']
        [''snap-id-1'', ''snap-id-2'']
   \<and> Asserts (fake_client 200 (count_header ''2'') [Decoded ''snap-id-1'', Decoded ''snap-id-2''])
        scripted_Decode ''snap-revision'' Map.empty
     = Some (Inr [''snap-id-1'', ''snap-id-2''])"
  using Asserts_count_check
    [of "fake_client 200 (count_header ''2'') [Decoded ''snap-id-1'', Decoded ''snap-id-2'']"
        "''snap-revision''" Map.empty
        "\<lparr> StatusCode = 200, Header = count_header ''2'',
           Body = [Decoded ''snap-id-1'', Decoded ''snap-id-2''] \<rparr>"
        2 scripted_Decode "[''snap-id-1'', ''snap-id-2'']"]
  by (simp add: fake_client_def count_header_def Header_Get_def Atoi_def isDigit_def
        scripted_Decode_def)

text \<open>
  The scenario of TestClientAssertsMissingAssertions: the header announces four
  assertions and the body has no bytes.
\<close>

lemma Asserts_missing_assertions:
  "Asserts (fake_client 200 (count_header ''4'') ([] :: string decode_result list))
      scripted_Decode ''snap-build'' Map.empty
     = Some (Inl ''response did not have the expected number of assertions'')"
proof -
  have "decodes_to scripted_Decode ([] :: string decode_result list) []"
    by (simp add: scripted_Decode_def)
  then have "decode_loop scripted_Decode ([] :: string decode_result list) [] = Some (Inr [])"
    using decode_loop_decodes_to [of scripted_Decode "[]" "[]" "[]"] by simp
  then show ?thesis
    by (simp add: Asserts_def fake_client_def count_header_def Header_Get_def Atoi_def
          isDigit_def)
qed

text \<open>
  Claim C10. When the response has status 200 and its X-Ubuntu-Assertions-Count header is
  absent or does not parse as an integer, \<open>Asserts\<close> fails with "invalid assertions count".
  It does so before the body is decoded: the result is the same for every decoder and
  every body, also for a decoder that never reaches end-of-stream, on which the decoding
  loop would not return.
\<close>

theorem Asserts_invalid_count:
  assumes "raw client ''GET'' (''/2.0/assertions/'' @ assertTypeName) (query_of headers) = Inr response"
    and "StatusCode response = 200"
    and "Header response ''X-Ubuntu-Assertions-Count'' = None
         \<or> Atoi (Header_Get (Header response) ''X-Ubuntu-Assertions-Count'') = None"
  shows "Asserts client Decode assertTypeName headers = Some (Inl ''invalid assertions count'')"
proof -
  have "Atoi (Header_Get (Header response) ''X-Ubuntu-Assertions-Count'') = None"
    using assms(3) by (auto simp: Header_Get_def Atoi_empty)
  then show ?thesis
    using assms(1,2) by (simp add: Asserts_def)
qed

theorem Asserts_invalid_count_witness:
  "Header \<lparr> StatusCode = 200, Header = count_header ''two'', Body = 0 \<rparr>
       ''X-Ubuntu-Assertions-Count'' \<noteq> None
   \<and> Atoi (Header_Get (count_header ''two'') ''X-Ubuntu-Assertions-Count'') = None
   \<and> Asserts (fake_client 200 (count_header ''two'') 0) endless_Decode ''snap-revision'' Map.empty
     = Some (Inl ''invalid assertions count'')"
  using Asserts_invalid_count
    [of "fake_client 200 (count_header ''two'') 0" "''snap-revision''" Map.empty
        "\<lparr> StatusCode = 200, Header = count_header ''two'', Body = 0 \<rparr>" endless_Decode]
  by (simp add: fake_client_def count_header_def Header_Get_def Atoi_def isDigit_def)

section \<open>Properties of the keypair manager\<close>


lemma Put_success_stores:
  assumes "Put ops fskm fs authorityID privKey = (None, fs')"
  shows "\<exists>encoded. encodePrivateKey ops privKey = Inr encoded
           \<and> fs' = fs\<lparr>files := (files fs)(Join (top_dir fskm)
                    [QueryEscape authorityID, PublicKeyID ops privKey] \<mapsto> File encoded)\<rparr>"
  using assms
  by (auto simp: Put_def Let_def atomicWriteEntry_def split: if_splits sum.splits option.splits)


text \<open>
  Claim C4. \<open>Put\<close> on a store that already has an entry for the escaped authority-id
  and the id derived from the key fails with the AlreadyExists error and leaves the store
  as it was. In particular, after a \<open>Put\<close> that stored the key, a second \<open>Put\<close> of
  the same key for the same authority fails with AlreadyExists and changes nothing.
\<close>

theorem Put_already_exists:
  "(files fs (Join (top_dir fskm) [QueryEscape authorityID, PublicKeyID ops privKey]) \<noteq> None
      \<longrightarrow> Put ops fskm fs authorityID privKey = (Some errKeypairAlreadyExists, fs))
   \<and> (Put ops fskm fs authorityID privKey = (None, fs')
      \<longrightarrow> Put ops fskm fs' authorityID privKey = (Some errKeypairAlreadyExists, fs'))"
proof (intro conjI impI)
  assume "files fs (Join (top_dir fskm) [QueryEscape authorityID, PublicKeyID ops privKey]) \<noteq> None"
  then show "Put ops fskm fs authorityID privKey = (Some errKeypairAlreadyExists, fs)"
    by (simp add: Put_def entryExists_def)
next
  assume "Put ops fskm fs authorityID privKey = (None, fs')"
  from Put_success_stores [OF this]
  have "files fs' (Join (top_dir fskm) [QueryEscape authorityID, PublicKeyID ops privKey]) \<noteq> None"
    by auto
  then show "Put ops fskm fs' authorityID privKey = (Some errKeypairAlreadyExists, fs')"
    by (simp add: Put_def entryExists_def)
qed

theorem Put_already_exists_witness:
  "Put example_keyops example_manager empty_store ''dev1'' ''0123456789abcdef'' = (None, dev1_store)
   \<and> files dev1_store (Join (top_dir example_manager)
         [QueryEscape ''dev1'', PublicKeyID example_keyops ''0123456789abcdef'']) \<noteq> None
   \<and> Put example_keyops example_manager dev1_store ''dev1'' ''0123456789abcdef''
       = (Some errKeypairAlreadyExists, dev1_store)"
proof -
  have 1: "Put example_keyops example_manager empty_store ''dev1'' ''0123456789abcdef'' = (None, dev1_store)"
    by (simp add: Put_def entryExists_def atomicWriteEntry_def example_keyops_def
          example_manager_def empty_store_def dev1_store_def Join_def QueryEscape_def
          escape_byte_def shouldEscape_def)
  have 2: "files dev1_store (Join (top_dir example_manager)
         [QueryEscape ''dev1'', PublicKeyID example_keyops ''0123456789abcdef'']) \<noteq> None"
    by (simp add: example_keyops_def example_manager_def dev1_store_def Join_def QueryEscape_def
          escape_byte_def shouldEscape_def)
  from 1 2 Put_already_exists [of empty_store example_manager "''dev1''" example_keyops
      "''0123456789abcdef''" dev1_store]
  show ?thesis by simp
qed





section \<open>Properties of the database and of the daemon's endpoints\<close>

lemmas db_example_defs = testTrustedKey_def testAccKey_def example_engine_def fixture_Decode_def
  untrusting_db_def trusting_db_def developer1_db_def header_def AuthorityID_def isAccountKeyFor_def
  stored_def current_def










text \<open>
  Claim C6, as stated: the message of the 400 for an undecodable body starts with
  "cannot decode request body into an assertion". It does not: for the body "blargh"
  of TestAssertInvalid the message starts with "can't decode request body into an
  assertion", the text that the test requires.
\<close>

theorem doAssert_undecodable_counterexample:
  "fixture_Decode ''blargh'' = Inl ''unexpected EOF''
   \<and> Status (fst (doAssert example_engine fixture_Decode untrusting_db 0 ''blargh'')) = 400
   \<and> Message (fst (doAssert example_engine fixture_Decode untrusting_db 0 ''blargh''))
       = ''can't decode request body into an assertion: unexpected EOF''
   \<and> \<not> prefix ''cannot decode request body into an assertion''
          (Message (fst (doAssert example_engine fixture_Decode untrusting_db 0 ''blargh'')))"
  by (simp add: doAssert_def BadRequest_def fixture_Decode_def)

text \<open>
  Claim C6, amended. A POST whose body does not decode into an assertion is answered with
  a 400 whose message starts with "can't decode request body into an assertion", and the
  database stays as it was.
\<close>

theorem doAssert_undecodable:
  assumes "Decode b = Inl err"
  shows "Status (fst (doAssert eng Decode db now b)) = 400
         \<and> prefix ''can't decode request body into an assertion''
              (Message (fst (doAssert eng Decode db now b)))
         \<and> snd (doAssert eng Decode db now b) = db"
  using assms by (simp add: doAssert_def BadRequest_def)

theorem doAssert_undecodable_witness:
  "fixture_Decode ''blargh'' = Inl ''unexpected EOF''
   \<and> Status (fst (doAssert example_engine fixture_Decode untrusting_db 0 ''blargh'')) = 400
   \<and> prefix ''can't decode request body into an assertion''
        (Message (fst (doAssert example_engine fixture_Decode untrusting_db 0 ''blargh'')))
   \<and> snd (doAssert example_engine fixture_Decode untrusting_db 0 ''blargh'') = untrusting_db"
proof -
  have 1: "fixture_Decode ''blargh'' = Inl ''unexpected EOF''"
    by (simp add: fixture_Decode_def)
  from doAssert_undecodable [where Decode = fixture_Decode and b = "''blargh''"
      and err = "''unexpected EOF''" and eng = example_engine and db = untrusting_db and now = 0] 1
  show ?thesis by simp
qed

text \<open>
  Claim C7. A GET of /2.0/assertions/{type} for a type that is not in the registry is
  answered with a 400 whose message contains "invalid assert type".
\<close>

theorem assertsFindMany_invalid_type:
  assumes "map_of (registry eng) assertType = None"
  shows "Status (assertsFindMany eng Encode db assertType query) = 400
         \<and> sublist ''invalid assert type'' (Message (assertsFindMany eng Encode db assertType query))"
  using assms by (simp add: assertsFindMany_def BadRequest_def)

theorem assertsFindMany_invalid_type_witness:
  "map_of (registry example_engine) ''foo'' = None
   \<and> Status (assertsFindMany example_engine fixture_Encode untrusting_db ''foo'' []) = 400
   \<and> sublist ''invalid assert type''
        (Message (assertsFindMany example_engine fixture_Encode untrusting_db ''foo'' []))"
proof -
  have 1: "map_of (registry example_engine) ''foo'' = None"
    by (simp add: example_engine_def)
  from assertsFindMany_invalid_type [OF 1, of fixture_Encode untrusting_db "[]"] 1
  show ?thesis by simp
qed



text \<open>The three queries of the daemon's tests on the database of the fixtures.\<close>

lemma assertsFindMany_all:
  "FindMany developer1_db ''account-key'' [] = Inr [testTrustedKey, testAccKey]
   \<and> Header_Get (RspHeader (assertsFindMany example_engine fixture_Encode developer1_db
        ''account-key'' [])) ''X-Ubuntu-Assertions-Count'' = ''2''"
  by (simp add: FindMany_def assertsFindMany_def AssertResponse_def Header_Get_def
        matchesFilter_def db_example_defs)

lemma assertsFindMany_filter:
  "FindMany developer1_db ''account-key'' [(''account-id'', ''developer1'')] = Inr [testAccKey]
   \<and> Header_Get (RspHeader (assertsFindMany example_engine fixture_Encode developer1_db
        ''account-key'' [(''account-id'', ''developer1'')])) ''X-Ubuntu-Assertions-Count'' = ''1''"
  by (simp add: FindMany_def assertsFindMany_def AssertResponse_def Header_Get_def
        matchesFilter_def db_example_defs)


end
